theory Spec2Isabelle
  imports Complex_Main
begin

section \<open>Exceptions\<close>

text \<open>
  The exceptions the real-time processor can meet: \<open>ValueError\<close> and
  \<open>ZeroDivisionError\<close> from the constructor and from the filter routines, and the
  \<open>queue.Full\<close> / \<open>queue.Empty\<close> signals of the bounded channels.
\<close>

datatype error = ValueError | ZeroDivisionError | Full | Empty

section \<open>The causal filter\<close>

text \<open>
  \<open>_process_window\<close> calls \<open>signal.lfilter(self.b, self.a, window, zi=self.filter_state)\<close>.
  The routine is the transposed direct form II of the difference equation: the
  coefficients are divided by \<open>a[0]\<close> once and padded with zeros to the common length
  \<open>n = max(len(a), len(b))\<close>, the delay line \<open>z\<close> has \<open>n - 1\<close> cells, and every sample
  \<open>x\<close> gives
  \<^item> \<open>y = z[0] + b[0] * x\<close> (just \<open>b[0] * x\<close> when there is no delay line),
  \<^item> \<open>z[i] = z[i+1] + b[i+1] * x - a[i+1] * y\<close> for every cell but the last,
  \<^item> \<open>z[n-2] = b[n-1] * x - a[n-1] * y\<close>.
  A zero \<open>a[0]\<close> and a delay line of the wrong length are refused with \<open>ValueError\<close>.
  The definitions are polymorphic in the arithmetic: they use the operations only, no
  law about them.
\<close>

definition pad :: "nat \<Rightarrow> 'a::zero list \<Rightarrow> 'a list" where
  "pad n cs = cs @ replicate (n - length cs) 0"

fun filter_update ::
  "'a::{plus,minus,times} \<Rightarrow> 'a \<Rightarrow> 'a list \<Rightarrow> 'a list \<Rightarrow> 'a list \<Rightarrow> 'a list" where
  "filter_update x y (bk # bs) (ak # acs) (z # zs) =
     (case zs of [] \<Rightarrow> bk * x - ak * y | z1 # _ \<Rightarrow> z1 + bk * x - ak * y)
       # filter_update x y bs acs zs"
| "filter_update x y _ _ _ = []"

definition filter_sample ::
  "'a::{plus,minus,times} \<Rightarrow> 'a list \<Rightarrow> 'a list \<Rightarrow> 'a list \<Rightarrow> 'a \<Rightarrow> 'a \<times> 'a list" where
  "filter_sample b0 bs acs z x =
     (case z of
        [] \<Rightarrow> (b0 * x, [])
      | z0 # _ \<Rightarrow> (let y = z0 + b0 * x in (y, filter_update x y bs acs z)))"

fun filter_loop ::
  "'a::{plus,minus,times} \<Rightarrow> 'a list \<Rightarrow> 'a list \<Rightarrow> 'a list \<Rightarrow> 'a list \<Rightarrow> 'a list \<times> 'a list" where
  "filter_loop b0 bs acs z [] = ([], z)"
| "filter_loop b0 bs acs z (x # xs) =
     (let (y, z') = filter_sample b0 bs acs z x;
          (ys, zf) = filter_loop b0 bs acs z' xs
      in (y # ys, zf))"

definition lfilter ::
  "'a::{zero,plus,minus,times,inverse} list \<Rightarrow> 'a list \<Rightarrow> 'a list \<Rightarrow> 'a list
     \<Rightarrow> error + ('a list \<times> 'a list)" where
  "lfilter b a x zi =
     (case a of
        [] \<Rightarrow> Inl ValueError
      | a0 # _ \<Rightarrow>
          if b = [] \<or> a0 = 0 then Inl ValueError
          else let n = max (length a) (length b) in
            if length zi \<noteq> n - 1 then Inl ValueError
            else let bn = pad n (map (\<lambda>c. c / a0) b);
                     an = pad n (map (\<lambda>c. c / a0) a)
                 in Inr (filter_loop (hd bn) (tl bn) (tl an) zi x))"

section \<open>Floating-point values\<close>

text \<open>
  The arrays of the program hold 64-bit floats. A value is a finite number or one of
  the three special values; \<open>np.isnan\<close> and \<open>np.isinf\<close> recognise the special ones.
  Finite values are real numbers here: rounding, overflow and the sign of zero are not
  part of the model. The arithmetic on special values is the IEEE 754 one.
\<close>

datatype float64 = Fin real | PInf | NInf | NaN

definition isnan :: "float64 \<Rightarrow> bool" where
  "isnan x = (x = NaN)"

definition isinf :: "float64 \<Rightarrow> bool" where
  "isinf x = (x = PInf \<or> x = NInf)"

fun fsign :: "float64 \<Rightarrow> real" where
  "fsign (Fin x) = sgn x"
| "fsign PInf = 1"
| "fsign NInf = - 1"
| "fsign NaN = 0"

fun fin_val :: "float64 \<Rightarrow> real" where
  "fin_val (Fin x) = x"
| "fin_val _ = 0"

instantiation float64 :: "{zero,plus,uminus,minus,times,inverse}"
begin

definition zero_float64 :: float64 where
  "zero_float64 = Fin 0"

fun plus_float64 :: "float64 \<Rightarrow> float64 \<Rightarrow> float64" where
  "plus_float64 NaN y = NaN"
| "plus_float64 x NaN = NaN"
| "plus_float64 (Fin x) (Fin y) = Fin (x + y)"
| "plus_float64 PInf NInf = NaN"
| "plus_float64 NInf PInf = NaN"
| "plus_float64 PInf y = PInf"
| "plus_float64 NInf y = NInf"
| "plus_float64 (Fin x) y = y"

fun uminus_float64 :: "float64 \<Rightarrow> float64" where
  "uminus_float64 (Fin x) = Fin (- x)"
| "uminus_float64 PInf = NInf"
| "uminus_float64 NInf = PInf"
| "uminus_float64 NaN = NaN"

definition minus_float64 :: "float64 \<Rightarrow> float64 \<Rightarrow> float64" where
  "minus_float64 x y = x + (- y)"

definition times_float64 :: "float64 \<Rightarrow> float64 \<Rightarrow> float64" where
  "times_float64 x y =
     (case (x, y) of
        (Fin u, Fin v) \<Rightarrow> Fin (u * v)
      | _ \<Rightarrow>
          if isnan x \<or> isnan y \<or> fsign x * fsign y = 0 then NaN
          else if 0 < fsign x * fsign y then PInf else NInf)"

definition divide_float64 :: "float64 \<Rightarrow> float64 \<Rightarrow> float64" where
  "divide_float64 x y =
     (case (x, y) of
        (Fin u, Fin v) \<Rightarrow>
          if v \<noteq> 0 then Fin (u / v)
          else if u = 0 then NaN else if 0 < u then PInf else NInf
      | (Fin u, _) \<Rightarrow> if isnan y then NaN else Fin 0
      | (_, Fin v) \<Rightarrow>
          if isnan x then NaN
          else if (0 < fsign x) = (0 \<le> v) then PInf else NInf
      | _ \<Rightarrow> NaN)"

fun inverse_float64 :: "float64 \<Rightarrow> float64" where
  "inverse_float64 (Fin v) = (if v \<noteq> 0 then Fin (1 / v) else PInf)"
| "inverse_float64 NaN = NaN"
| "inverse_float64 x = Fin 0"

instance ..

end

section \<open>The feature extractors\<close>

text \<open>
  The numpy primitives the extractors use, on windows of finite samples. The mean of
  an empty array is \<open>nan\<close>, so the results are floats. \<open>np.diff\<close> is
  \<open>out[i] = a[i+1] - a[i]\<close>, and on a boolean array it is \<open>a[i+1] != a[i]\<close>;
  \<open>np.sum\<close> of a boolean array counts its true entries; \<open>np.signbit\<close> of a finite
  number says whether it is negative; \<open>d[:-1]\<close> drops the last entry and \<open>d[1:]\<close>
  the first.
\<close>

definition np_mean :: "real list \<Rightarrow> float64" where
  "np_mean xs = (if xs = [] then NaN else Fin (sum_list xs / real (length xs)))"

definition np_std :: "real list \<Rightarrow> float64" where
  "np_std xs =
     (if xs = [] then NaN
      else let m = sum_list xs / real (length xs)
           in Fin (sqrt (sum_list (map (\<lambda>x. (x - m) * (x - m)) xs) / real (length xs))))"

definition np_diff :: "real list \<Rightarrow> real list" where
  "np_diff xs = map (\<lambda>(u, v). v - u) (zip xs (tl xs))"

definition np_diff_bool :: "bool list \<Rightarrow> bool list" where
  "np_diff_bool bs = map (\<lambda>(u, v). v \<noteq> u) (zip bs (tl bs))"

definition np_sum_bool :: "bool list \<Rightarrow> nat" where
  "np_sum_bool bs = length (filter (\<lambda>p. p) bs)"

definition np_signbit :: "real list \<Rightarrow> bool list" where
  "np_signbit xs = map (\<lambda>x. x < 0) xs"


definition slope_sign_changes :: "real list \<Rightarrow> nat" where
  "slope_sign_changes xs =
     (let d = np_diff xs
      in np_sum_bool (map (\<lambda>(p, q). p * q < 0) (zip (butlast d) (tl d))))"

record features =
  mav :: float64
  std :: float64
  ssc :: float64
  zc :: float64

text \<open>\<open>RealTimeDataProcessor._extract_features\<close>: zero crossings from the sign bit.\<close>

definition extract_features :: "real list \<Rightarrow> features" where
  "extract_features signal =
     \<lparr> mav = np_mean (map abs signal),
       std = np_std signal,
       ssc = Fin (real (slope_sign_changes signal)),
       zc = Fin (real (np_sum_bool (np_diff_bool (np_signbit signal)))) \<rparr>"





section \<open>The rolling window and the bounded channels\<close>

text \<open>
  \<open>deque(maxlen=n)\<close>: \<open>append\<close> adds on the right and, when the length then exceeds
  \<open>maxlen\<close>, removes the leftmost element. A negative \<open>maxlen\<close> is refused by the
  constructor (see \<open>init\<close>), so the bound is a natural number.
\<close>

record 'a deque =
  maxlen :: nat
  items :: "'a list"

definition deque_append :: "'a deque \<Rightarrow> 'a \<Rightarrow> 'a deque" where
  "deque_append d x =
     (let xs = items d @ [x]
      in d\<lparr>items := (if maxlen d < length xs then tl xs else xs)\<rparr>)"

text \<open>
  The eviction loop of \<open>_process_window\<close>:
  \<open>for _ in range(self.step_size): if self.buffer: self.buffer.popleft()\<close>.
\<close>

fun popleft_loop :: "nat \<Rightarrow> 'a deque \<Rightarrow> 'a deque" where
  "popleft_loop 0 d = d"
| "popleft_loop (Suc k) d =
     popleft_loop k (if items d \<noteq> [] then d\<lparr>items := tl (items d)\<rparr> else d)"

text \<open>
  \<open>queue.Queue(maxsize=n)\<close>, first in, first out: \<open>put_nowait\<close> raises \<open>Full\<close> when
  \<open>0 < maxsize \<le> qsize\<close>, \<open>get_nowait\<close> raises \<open>Empty\<close> on an empty queue.
\<close>

record 'a queue =
  maxsize :: nat
  contents :: "'a list"

definition full :: "'a queue \<Rightarrow> bool" where
  "full q = (0 < maxsize q \<and> maxsize q \<le> length (contents q))"

definition put_nowait :: "'a queue \<Rightarrow> 'a \<Rightarrow> error + 'a queue" where
  "put_nowait q x =
     (if full q then Inl Full else Inr (q\<lparr>contents := contents q @ [x]\<rparr>))"

definition get_nowait :: "'a queue \<Rightarrow> error + ('a \<times> 'a queue)" where
  "get_nowait q =
     (case contents q of
        [] \<Rightarrow> Inl Empty
      | x # xs \<Rightarrow> Inr (x, q\<lparr>contents := xs\<rparr>))"

section \<open>The processor\<close>

text \<open>
  A result is the dictionary \<open>_process_window\<close> returns. The classifier is the loaded
  model seen through \<open>_get_prediction\<close>: from the filtered window and the features it
  gives a class index, or nothing when every call convention fails. The two stages are
  the targets of the two threads.
\<close>

record result =
  raw_signal :: "float64 list"
  filtered_signal :: "float64 list"
  features :: features
  prediction :: "int option"
  timestamp :: real

type_synonym classifier = "float64 list \<Rightarrow> features \<Rightarrow> int option"

datatype target = DataCollectionLoop | ProcessingLoop

record thread =
  target :: target
  daemon :: bool

record processor =
  port :: string
  baud_rate :: int
  buffer_size :: int
  step_size :: int
  sampling_freq :: int
  buffer :: "float64 deque"
  coef_b :: "float64 list"
  coef_a :: "float64 list"
  filter_state :: "float64 list option"
  model :: "classifier option"
  data_queue :: "float64 queue"
  result_queue :: "result queue"
  running :: bool
  collection_thread :: "thread option"
  processing_thread :: "thread option"
  samples_collected :: int
  samples_processed :: int
  samples_dropped :: int

subsection \<open>Construction\<close>

text \<open>
  The arguments of \<open>__init__\<close> and their defaults. The filter design
  \<open>signal.butter(filter_order, [low, high], btype='band')\<close> is a parameter: it gives
  the coefficient arrays \<open>(b, a)\<close> or raises. The constructor itself raises in two places:
  \<open>deque(maxlen=buffer_size)\<close> refuses a negative bound, and \<open>low_freq / nyquist\<close>
  divides by zero when \<open>sampling_freq\<close> is zero. It has no other check.
\<close>

record args =
  arg_port :: string
  arg_baud_rate :: int
  arg_buffer_size :: int
  arg_step_size :: int
  arg_sampling_freq :: int
  arg_low_freq :: real
  arg_high_freq :: real
  arg_filter_order :: int

definition default_args :: args where
  "default_args =
     \<lparr> arg_port = ''COM3'', arg_baud_rate = 115200, arg_buffer_size = 250,
       arg_step_size = 125, arg_sampling_freq = 1000, arg_low_freq = 20,
       arg_high_freq = 450, arg_filter_order = 4 \<rparr>"

type_synonym butter = "int \<Rightarrow> real \<times> real \<Rightarrow> error + (float64 list \<times> float64 list)"

definition init :: "butter \<Rightarrow> args \<Rightarrow> error + processor" where
  "init butter_fn g =
     (if arg_buffer_size g < 0 then Inl ValueError
      else let nyquist = real_of_int (arg_sampling_freq g) / 2 in
        if nyquist = 0 then Inl ZeroDivisionError
        else case butter_fn (arg_filter_order g)
                    (arg_low_freq g / nyquist, arg_high_freq g / nyquist) of
          Inl e \<Rightarrow> Inl e
        | Inr (cb, ca) \<Rightarrow>
            Inr \<lparr> port = arg_port g,
                  baud_rate = arg_baud_rate g,
                  buffer_size = arg_buffer_size g,
                  step_size = arg_step_size g,
                  sampling_freq = arg_sampling_freq g,
                  buffer = \<lparr> maxlen = nat (arg_buffer_size g), items = [] \<rparr>,
                  coef_b = cb,
                  coef_a = ca,
                  filter_state = None,
                  model = None,
                  data_queue = \<lparr> maxsize = 1000, contents = [] \<rparr>,
                  result_queue = \<lparr> maxsize = 100, contents = [] \<rparr>,
                  running = False,
                  collection_thread = None,
                  processing_thread = None,
                  samples_collected = 0,
                  samples_processed = 0,
                  samples_dropped = 0 \<rparr>)"

subsection \<open>Lifecycle\<close>

text \<open>
  \<open>start\<close> and \<open>stop\<close> return the new state and what they did outside it: the threads
  started, the threads joined and the lines printed, in order.
\<close>

datatype effect = Print string | ThreadStart target | ThreadJoin target

definition start :: "processor \<Rightarrow> processor \<times> effect list" where
  "start st =
     (if running st then (st, [Print ''Processor is already running!''])
      else
        (st\<lparr> running := True,
             collection_thread := Some \<lparr> target = DataCollectionLoop, daemon = True \<rparr>,
             processing_thread := Some \<lparr> target = ProcessingLoop, daemon = True \<rparr> \<rparr>,
         [ThreadStart DataCollectionLoop, ThreadStart ProcessingLoop,
          Print ''Real-time processor started!'']))"

definition join_of :: "thread option \<Rightarrow> effect list" where
  "join_of t = (case t of None \<Rightarrow> [] | Some th \<Rightarrow> [ThreadJoin (target th)])"

definition stop :: "processor \<Rightarrow> processor \<times> effect list" where
  "stop st =
     (st\<lparr>running := False\<rparr>,
      join_of (collection_thread st) @ join_of (processing_thread st)
        @ [Print ''Real-time processor stopped!''])"

subsection \<open>The Ingestion Stage\<close>

text \<open>
  One turn of the loop of \<open>_data_collection_loop\<close> with a line waiting on the serial
  port. \<open>int(ser.readline().decode().strip())\<close> is the parameter \<open>py_int\<close>: the integer
  read, or nothing when it raises \<open>ValueError\<close>. The outcome says which branch ran.
\<close>

datatype ingest = Malformed | Enqueued | Dropped

definition collect_line ::
  "(string \<Rightarrow> int option) \<Rightarrow> processor \<Rightarrow> string \<Rightarrow> processor \<times> ingest" where
  "collect_line py_int st line =
     (case py_int line of
        None \<Rightarrow> (st, Malformed)
      | Some v \<Rightarrow>
          (let st1 = st\<lparr>samples_collected := samples_collected st + 1\<rparr>
           in case put_nowait (data_queue st1) (Fin (of_int v)) of
                Inl e \<Rightarrow> (st1\<lparr>samples_dropped := samples_dropped st1 + 1\<rparr>, Dropped)
              | Inr q \<Rightarrow> (st1\<lparr>data_queue := q\<rparr>, Enqueued)))"

subsection \<open>The Processing Stage\<close>

text \<open>
  \<open>_process_window\<close>. \<open>signal.lfilter_zi(self.b, self.a)\<close> is the parameter
  \<open>lfilter_zi\<close> and \<open>time.time()\<close> the parameter \<open>now\<close>; \<open>ensure_filter_state\<close>
  is the lazy initialisation of the delay line. Every exception is caught by
  the function itself, which then returns \<open>None\<close> with the assignments made so far:
  a delay line set from \<open>lfilter_zi\<close> stays when \<open>lfilter\<close> raises. The features are
  taken of the filtered window once it is known to be finite. Console output is left out.
\<close>

definition invalid_values :: "float64 list \<Rightarrow> bool" where
  "invalid_values w = (list_ex isnan w \<or> list_ex isinf w)"

definition get_prediction :: "processor \<Rightarrow> float64 list \<Rightarrow> features \<Rightarrow> int option" where
  "get_prediction st filtered fs =
     (case model st of None \<Rightarrow> None | Some m \<Rightarrow> m filtered fs)"

definition ensure_filter_state ::
  "(float64 list \<Rightarrow> float64 list \<Rightarrow> error + float64 list) \<Rightarrow> processor
     \<Rightarrow> error + float64 list" where
  "ensure_filter_state lfilter_zi st =
     (case filter_state st of
        None \<Rightarrow> lfilter_zi (coef_b st) (coef_a st)
      | Some z \<Rightarrow> Inr z)"

definition process_window ::
  "(float64 list \<Rightarrow> float64 list \<Rightarrow> error + float64 list) \<Rightarrow> real \<Rightarrow> processor
     \<Rightarrow> result option \<times> processor" where
  "process_window lfilter_zi now st =
     (let window = items (buffer st) in
      if int (length window) \<noteq> buffer_size st then (None, st)
      else if invalid_values window then (None, st)
      else
        case ensure_filter_state lfilter_zi st of
          Inl e \<Rightarrow> (None, st)
        | Inr zi \<Rightarrow>
            (let st1 = st\<lparr>filter_state := Some zi\<rparr> in
             case lfilter (coef_b st1) (coef_a st1) window zi of
               Inl e \<Rightarrow> (None, st1)
             | Inr (filtered, zf) \<Rightarrow>
                 (let st2 = st1\<lparr>filter_state := Some zf\<rparr> in
                  if invalid_values filtered then (None, st2)
                  else
                    let fs = extract_features (map fin_val filtered);
                        p = (if model st2 \<noteq> None then get_prediction st2 filtered fs
                             else None);
                        st3 = st2\<lparr>buffer := popleft_loop (nat (step_size st2)) (buffer st2)\<rparr>;
                        st4 = st3\<lparr>samples_processed := samples_processed st3 + 1\<rparr>
                    in (Some \<lparr> raw_signal = window, filtered_signal = filtered,
                               features = fs, prediction = p, timestamp = now \<rparr>,
                        st4))))"

text \<open>
  The body of the loop of \<open>_processing_loop\<close> once a sample has been taken from the
  sample channel: append, and process when the window is full. The trigger says whether
  \<open>_process_window\<close> was called and what it returned; a result is put on the result
  channel unless the channel is full.
\<close>

datatype trigger = NotTriggered | Triggered "result option"

definition process_sample ::
  "(float64 list \<Rightarrow> float64 list \<Rightarrow> error + float64 list) \<Rightarrow> real \<Rightarrow> processor
     \<Rightarrow> float64 \<Rightarrow> processor \<times> trigger" where
  "process_sample lfilter_zi now st v =
     (let st1 = st\<lparr>buffer := deque_append (buffer st) v\<rparr> in
      if int (length (items (buffer st1))) = buffer_size st1 then
        (case process_window lfilter_zi now st1 of
           (None, st2) \<Rightarrow> (st2, Triggered None)
         | (Some r, st2) \<Rightarrow>
             (case put_nowait (result_queue st2) r of
                Inl e \<Rightarrow> (st2, Triggered (Some r))
              | Inr q \<Rightarrow> (st2\<lparr>result_queue := q\<rparr>, Triggered (Some r))))
      else (st1, NotTriggered))"


text \<open>
  One turn of the loop of \<open>_processing_loop\<close>: \<open>self.data_queue.get(timeout=0.1)\<close>
  gives the oldest sample of the channel, or raises \<open>Empty\<close> and the loop goes on.
\<close>

definition processing_turn ::
  "(float64 list \<Rightarrow> float64 list \<Rightarrow> error + float64 list) \<Rightarrow> real \<Rightarrow> processor
     \<Rightarrow> processor \<times> trigger option" where
  "processing_turn lfilter_zi now st =
     (case get_nowait (data_queue st) of
        Inl e \<Rightarrow> (st, None)
      | Inr (v, q) \<Rightarrow>
          (let (st1, t) = process_sample lfilter_zi now (st\<lparr>data_queue := q\<rparr>) v
           in (st1, Some t)))"

subsection \<open>The two stages together\<close>

text \<open>
  The stages run in two threads. A run is a schedule: an event is a turn of the
  Ingestion Stage with a line read from the serial port, or a turn of the Processing
  Stage at some time. The outcomes are collected in order.
\<close>

datatype event = Serial string | Turn real

datatype outcome = Ingested ingest | Processed "trigger option"

fun pipeline_run ::
  "(string \<Rightarrow> int option) \<Rightarrow> (float64 list \<Rightarrow> float64 list \<Rightarrow> error + float64 list)
     \<Rightarrow> processor \<Rightarrow> event list \<Rightarrow> processor \<times> outcome list" where
  "pipeline_run py_int lfilter_zi st [] = (st, [])"
| "pipeline_run py_int lfilter_zi st (Serial line # evs) =
     (let (st1, i) = collect_line py_int st line;
          (st2, os) = pipeline_run py_int lfilter_zi st1 evs
      in (st2, Ingested i # os))"
| "pipeline_run py_int lfilter_zi st (Turn now # evs) =
     (let (st1, t) = processing_turn lfilter_zi now st;
          (st2, os) = pipeline_run py_int lfilter_zi st1 evs
      in (st2, Processed t # os))"

subsection \<open>The caller's side\<close>

definition get_latest_result :: "processor \<Rightarrow> result option \<times> processor" where
  "get_latest_result st =
     (case get_nowait (result_queue st) of
        Inl e \<Rightarrow> (None, st)
      | Inr (r, q) \<Rightarrow> (Some r, st\<lparr>result_queue := q\<rparr>))"

text \<open>
  The invariant of the window: the bound of the deque is the configured size, and the
  deque respects it.
\<close>

definition window_inv :: "processor \<Rightarrow> bool" where
  "window_inv st =
     (0 \<le> buffer_size st \<and> maxlen (buffer st) = nat (buffer_size st) \<and>
      length (items (buffer st)) \<le> maxlen (buffer st))"

text \<open>
  Counts over a run: the lines that parse, and the enqueues that failed on a full
  sample channel.
\<close>

fun parses :: "(string \<Rightarrow> int option) \<Rightarrow> event \<Rightarrow> bool" where
  "parses py_int (Serial line) = (py_int line \<noteq> None)"
| "parses py_int (Turn now) = False"

definition parsed_lines :: "(string \<Rightarrow> int option) \<Rightarrow> event list \<Rightarrow> nat" where
  "parsed_lines py_int evs = length (filter (parses py_int) evs)"

definition failed_enqueues :: "outcome list \<Rightarrow> nat" where
  "failed_enqueues os = length (filter (\<lambda>x. x = Ingested Dropped) os)"

subsection \<open>Concrete processors\<close>

text \<open>
  For concrete runs: the filter design that returns the identity filter
  \<open>b = [1], a = [1]\<close>, whose delay line is empty, a parser of two lines, and the
  processor constructed with a window of three samples sliding by one.
\<close>

definition identity_butter :: butter where
  "identity_butter order w = Inr ([Fin 1], [Fin 1])"

definition identity_zi :: "float64 list \<Rightarrow> float64 list \<Rightarrow> error + float64 list" where
  "identity_zi cb ca = Inr []"

definition two_lines :: "string \<Rightarrow> int option" where
  "two_lines line = (if line = ''7'' then Some 7 else if line = ''512'' then Some 512 else None)"

definition small_args :: args where
  "small_args = default_args\<lparr>arg_buffer_size := 3, arg_step_size := 1\<rparr>"

definition small_processor :: processor where
  "small_processor =
     \<lparr> port = ''COM3'', baud_rate = 115200, buffer_size = 3, step_size = 1,
       sampling_freq = 1000, buffer = \<lparr> maxlen = 3, items = [] \<rparr>,
       coef_b = [Fin 1], coef_a = [Fin 1], filter_state = None, model = None,
       data_queue = \<lparr> maxsize = 1000, contents = [] \<rparr>,
       result_queue = \<lparr> maxsize = 100, contents = [] \<rparr>,
       running = False, collection_thread = None, processing_thread = None,
       samples_collected = 0, samples_processed = 0, samples_dropped = 0 \<rparr>"

section \<open>Properties of the causal filter\<close>







section \<open>Properties of the feature extractors\<close>














section \<open>Properties of the rolling window\<close>

lemma popleft_loop_drop:
  "popleft_loop k d = d\<lparr>items := drop k (items d)\<rparr>"
proof (induction k arbitrary: d)
  case 0
  show ?case by simp
next
  case (Suc k)
  show ?case
    by (cases "items d") (simp_all add: Suc.IH drop_Suc)
qed

lemma deque_append_items:
  "items (deque_append d x) =
     (if maxlen d < Suc (length (items d)) then tl (items d @ [x]) else items d @ [x])"
  by (simp add: deque_append_def Let_def)

lemma deque_append_maxlen: "maxlen (deque_append d x) = maxlen d"
  by (simp add: deque_append_def Let_def)

lemma deque_append_bounded:
  "length (items d) \<le> maxlen d \<Longrightarrow> length (items (deque_append d x)) \<le> maxlen d"
  by (simp add: deque_append_items)

section \<open>Properties of the Processing Stage\<close>

text \<open>
  What \<open>_process_window\<close> does to the window and the processed counter, by the value
  it returns, and what it never touches.
\<close>

lemma process_window_cases:
  "process_window zi now st = (ro, st') \<Longrightarrow>
     (ro = None \<and> buffer st' = buffer st \<and> samples_processed st' = samples_processed st) \<or>
     (\<exists>r. ro = Some r \<and> raw_signal r = items (buffer st) \<and>
        int (length (items (buffer st))) = buffer_size st \<and>
        buffer st' = popleft_loop (nat (step_size st)) (buffer st) \<and>
        samples_processed st' = samples_processed st + 1)"
  unfolding process_window_def Let_def
  by (auto split: if_splits sum.splits option.splits prod.splits)

lemma process_window_frame:
  "process_window zi now st = (ro, st') \<Longrightarrow>
     buffer_size st' = buffer_size st \<and> step_size st' = step_size st \<and>
     samples_collected st' = samples_collected st \<and>
     samples_dropped st' = samples_dropped st \<and>
     data_queue st' = data_queue st \<and> result_queue st' = result_queue st"
  unfolding process_window_def Let_def
  by (auto split: if_splits sum.splits option.splits prod.splits)

lemma init_window_inv: "init butter_fn g = Inr st \<Longrightarrow> window_inv st"
  unfolding init_def Let_def window_inv_def
  by (simp split: if_splits sum.splits prod.splits) fastforce

lemma init_fresh:
  "init butter_fn g = Inr st \<Longrightarrow>
     \<not> running st \<and> collection_thread st = None \<and> processing_thread st = None"
  unfolding init_def Let_def
  by (simp split: if_splits sum.splits prod.splits) fastforce

lemma process_window_inv:
  assumes "process_window zi now st = (ro, st')" "window_inv st"
  shows "window_inv st'"
proof -
  from process_window_frame [OF assms(1)] have bs: "buffer_size st' = buffer_size st" by simp
  from process_window_cases [OF assms(1)]
  have "buffer st' = buffer st \<or> buffer st' = popleft_loop (nat (step_size st)) (buffer st)"
    by auto
  then show ?thesis
    using assms(2) bs by (auto simp: window_inv_def popleft_loop_drop)
qed

lemma process_sample_frame:
  assumes "process_sample zi now st v = (st', t)"
  shows "buffer_size st' = buffer_size st \<and> step_size st' = step_size st \<and>
     samples_collected st' = samples_collected st \<and>
     samples_dropped st' = samples_dropped st \<and> data_queue st' = data_queue st"
proof (cases "int (length (items (deque_append (buffer st) v))) = buffer_size st")
  case False
  with assms show ?thesis by (auto simp: process_sample_def Let_def)
next
  case True
  obtain ro st2
    where pw: "process_window zi now (st\<lparr>buffer := deque_append (buffer st) v\<rparr>) = (ro, st2)"
    by (cases "process_window zi now (st\<lparr>buffer := deque_append (buffer st) v\<rparr>)")
  from process_window_frame [OF pw] True assms pw show ?thesis
    by (auto simp: process_sample_def Let_def split: option.splits sum.splits)
qed

lemma process_sample_inv:
  assumes "process_sample zi now st v = (st', t)" "window_inv st"
  shows "window_inv st'"
proof -
  let ?st1 = "st\<lparr>buffer := deque_append (buffer st) v\<rparr>"
  have inv1: "window_inv ?st1"
    using assms(2) deque_append_bounded [of "buffer st" v]
    by (simp add: window_inv_def deque_append_maxlen)
  show ?thesis
  proof (cases "int (length (items (deque_append (buffer st) v))) = buffer_size st")
    case False
    with assms(1) have "st' = ?st1" by (auto simp: process_sample_def Let_def)
    with inv1 show ?thesis by simp
  next
    case True
    obtain ro st2 where pw: "process_window zi now ?st1 = (ro, st2)"
      by (cases "process_window zi now ?st1")
    from process_window_inv [OF pw inv1] have "window_inv st2" .
    moreover from True assms(1) pw
    have "buffer st' = buffer st2 \<and> buffer_size st' = buffer_size st2"
      by (auto simp: process_sample_def Let_def split: option.splits sum.splits)
    ultimately show ?thesis by (simp add: window_inv_def)
  qed
qed

lemma process_sample_trigger:
  "(snd (process_sample zi now st v) \<noteq> NotTriggered) =
     (int (length (items (deque_append (buffer st) v))) = buffer_size st)"
  by (simp add: process_sample_def Let_def split: prod.splits option.splits sum.splits)

lemma collect_line_frame:
  "collect_line py_int st line = (st', i) \<Longrightarrow>
     buffer st' = buffer st \<and> buffer_size st' = buffer_size st"
  by (auto simp: collect_line_def Let_def split: option.splits sum.splits)

lemma collect_line_counters:
  "samples_collected (fst (collect_line py_int st line)) =
     samples_collected st + (if py_int line = None then 0 else 1) \<and>
   samples_dropped (fst (collect_line py_int st line)) =
     samples_dropped st + (if snd (collect_line py_int st line) = Dropped then 1 else 0)"
  by (simp add: collect_line_def Let_def split: option.splits sum.splits)

lemma collect_line_outcome:
  "(snd (collect_line py_int st line) = Dropped) =
     (py_int line \<noteq> None \<and> full (data_queue st))"
  by (simp add: collect_line_def Let_def put_nowait_def full_def split: option.splits)

lemma collect_line_malformed:
  "py_int line = None \<Longrightarrow> collect_line py_int st line = (st, Malformed)"
  by (simp add: collect_line_def)

lemma processing_turn_frame:
  assumes "processing_turn zi now st = (st', t)"
  shows "samples_collected st' = samples_collected st \<and> samples_dropped st' = samples_dropped st"
proof (cases "get_nowait (data_queue st)")
  case (Inl e)
  with assms show ?thesis by (simp add: processing_turn_def)
next
  case (Inr p)
  obtain v q where p: "p = (v, q)" by (cases p)
  obtain st1 t1 where ps: "process_sample zi now (st\<lparr>data_queue := q\<rparr>) v = (st1, t1)"
    by (cases "process_sample zi now (st\<lparr>data_queue := q\<rparr>) v")
  from process_sample_frame [OF ps] assms Inr p ps show ?thesis
    by (simp add: processing_turn_def)
qed

lemma processing_turn_inv:
  assumes "processing_turn zi now st = (st', t)" "window_inv st"
  shows "window_inv st'"
proof (cases "get_nowait (data_queue st)")
  case (Inl e)
  with assms show ?thesis by (simp add: processing_turn_def)
next
  case (Inr p)
  obtain v q where p: "p = (v, q)" by (cases p)
  obtain st1 t1 where ps: "process_sample zi now (st\<lparr>data_queue := q\<rparr>) v = (st1, t1)"
    by (cases "process_sample zi now (st\<lparr>data_queue := q\<rparr>) v")
  have "window_inv (st\<lparr>data_queue := q\<rparr>)" using assms(2) by (simp add: window_inv_def)
  from process_sample_inv [OF ps this] assms Inr p ps show ?thesis
    by (simp add: processing_turn_def)
qed

lemma pipeline_run_inv:
  "window_inv st \<Longrightarrow> window_inv (fst (pipeline_run py_int zi st evs))"
proof (induction evs arbitrary: st)
  case Nil
  then show ?case by simp
next
  case (Cons e evs)
  show ?case
  proof (cases e)
    case (Serial line)
    obtain st1 i where c: "collect_line py_int st line = (st1, i)"
      by (cases "collect_line py_int st line")
    from collect_line_frame [OF c] Cons.prems have "window_inv st1"
      by (simp add: window_inv_def)
    from Cons.IH [OF this] c Serial show ?thesis by (simp add: split_beta)
  next
    case (Turn now)
    obtain st1 t where c: "processing_turn zi now st = (st1, t)"
      by (cases "processing_turn zi now st")
    from processing_turn_inv [OF c Cons.prems] have "window_inv st1" .
    from Cons.IH [OF this] c Turn show ?thesis by (simp add: split_beta)
  qed
qed

lemma init_small: "init identity_butter small_args = Inr small_processor"
  by (simp add: init_def identity_butter_def small_args_def default_args_def
      small_processor_def)

text \<open>
  C2. In every state a constructed processor reaches, under any schedule of the two
  stages, the window holds at most \<open>buffer_size\<close> samples; and the next sample taken
  from the channel triggers window processing exactly when, with that sample appended,
  the window holds \<open>buffer_size\<close> samples.
\<close>

theorem rolling_window_bounded:
  "init butter_fn g = Inr st0 \<Longrightarrow>
     int (length (items (buffer (fst (pipeline_run py_int zi st0 evs)))))
       \<le> buffer_size (fst (pipeline_run py_int zi st0 evs)) \<and>
     (snd (process_sample zi now (fst (pipeline_run py_int zi st0 evs)) v) \<noteq> NotTriggered) =
       (int (length (items (deque_append (buffer (fst (pipeline_run py_int zi st0 evs))) v)))
          = buffer_size (fst (pipeline_run py_int zi st0 evs)))"
proof -
  assume "init butter_fn g = Inr st0"
  then have "window_inv (fst (pipeline_run py_int zi st0 evs))"
    by (intro pipeline_run_inv init_window_inv)
  then have "int (length (items (buffer (fst (pipeline_run py_int zi st0 evs)))))
       \<le> buffer_size (fst (pipeline_run py_int zi st0 evs))"
    unfolding window_inv_def by linarith
  then show ?thesis
    by (simp add: process_sample_trigger)
qed

theorem rolling_window_bounded_witness:
  "init identity_butter small_args = Inr small_processor \<and>
   int (length (items (buffer (fst (pipeline_run two_lines identity_zi small_processor
       [Serial ''7'', Turn 0, Serial ''512'', Turn 1])))))
     \<le> buffer_size (fst (pipeline_run two_lines identity_zi small_processor
       [Serial ''7'', Turn 0, Serial ''512'', Turn 1])) \<and>
   (snd (process_sample identity_zi 2 (fst (pipeline_run two_lines identity_zi small_processor
       [Serial ''7'', Turn 0, Serial ''512'', Turn 1])) (Fin 9)) \<noteq> NotTriggered) =
     (int (length (items (deque_append (buffer (fst (pipeline_run two_lines identity_zi
         small_processor [Serial ''7'', Turn 0, Serial ''512'', Turn 1]))) (Fin 9))))
        = buffer_size (fst (pipeline_run two_lines identity_zi small_processor
            [Serial ''7'', Turn 0, Serial ''512'', Turn 1])))"
  using rolling_window_bounded [OF init_small, of two_lines identity_zi
      "[Serial ''7'', Turn 0, Serial ''512'', Turn 1]" 2 "Fin 9"] init_small
  by simp







text \<open>
  C10. A window with a NaN or an infinite value is not processed: \<open>_process_window\<close>
  returns \<open>None\<close> and the whole state is as before, so nothing is evicted, the filter
  state is neither set nor changed, and the processed counter stands.
\<close>

theorem invalid_window_skipped:
  "invalid_values (items (buffer st)) \<Longrightarrow> process_window zi now st = (None, st)"
  by (simp add: process_window_def Let_def)

theorem invalid_window_skipped_witness:
  "invalid_values (items (buffer
       (small_processor\<lparr>buffer := \<lparr>maxlen = 3, items = [Fin 1, NaN, PInf]\<rparr>\<rparr>))) \<and>
   process_window identity_zi 0
       (small_processor\<lparr>buffer := \<lparr>maxlen = 3, items = [Fin 1, NaN, PInf]\<rparr>\<rparr>)
     = (None, small_processor\<lparr>buffer := \<lparr>maxlen = 3, items = [Fin 1, NaN, PInf]\<rparr>\<rparr>)"
  using invalid_window_skipped [of
      "small_processor\<lparr>buffer := \<lparr>maxlen = 3, items = [Fin 1, NaN, PInf]\<rparr>\<rparr>" identity_zi 0]
  by (simp add: invalid_values_def isnan_def)

section \<open>Properties of the Ingestion Stage\<close>

lemma parsed_lines_simps:
  "parsed_lines py_int [] = 0"
  "parsed_lines py_int (Serial line # evs) =
     (if py_int line = None then 0 else 1) + parsed_lines py_int evs"
  "parsed_lines py_int (Turn now # evs) = parsed_lines py_int evs"
  by (simp_all add: parsed_lines_def)

lemma failed_enqueues_simps:
  "failed_enqueues [] = 0"
  "failed_enqueues (Ingested i # os) = (if i = Dropped then 1 else 0) + failed_enqueues os"
  "failed_enqueues (Processed t # os) = failed_enqueues os"
  by (simp_all add: failed_enqueues_def)

lemma pipeline_run_counters:
  "samples_collected (fst (pipeline_run py_int zi st evs)) =
      samples_collected st + int (parsed_lines py_int evs) \<and>
   samples_dropped (fst (pipeline_run py_int zi st evs)) =
      samples_dropped st + int (failed_enqueues (snd (pipeline_run py_int zi st evs)))"
proof (induction evs arbitrary: st)
  case Nil
  show ?case by (simp add: parsed_lines_simps failed_enqueues_simps)
next
  case (Cons e evs)
  show ?case
  proof (cases e)
    case (Serial line)
    obtain st1 i where c: "collect_line py_int st line = (st1, i)"
      by (cases "collect_line py_int st line")
    from collect_line_counters [of py_int st line] c Cons.IH [of st1] Serial show ?thesis
      by (simp add: split_beta parsed_lines_simps failed_enqueues_simps)
  next
    case (Turn now)
    obtain st1 t where c: "processing_turn zi now st = (st1, t)"
      by (cases "processing_turn zi now st")
    from processing_turn_frame [OF c] c Cons.IH [of st1] Turn show ?thesis
      by (simp add: split_beta parsed_lines_simps failed_enqueues_simps)
  qed
qed

text \<open>
  C4. Over any run of the two stages, the collected counter grows by the number of
  lines that parse, whether or not they are enqueued, and the dropped counter by the
  number of enqueues that failed; an enqueue fails exactly when the line parses and the
  sample channel is full at that moment; a line that does not parse changes nothing.
\<close>

theorem ingestion_counters:
  "samples_collected (fst (pipeline_run py_int zi st evs)) =
      samples_collected st + int (parsed_lines py_int evs) \<and>
   samples_dropped (fst (pipeline_run py_int zi st evs)) =
      samples_dropped st + int (failed_enqueues (snd (pipeline_run py_int zi st evs))) \<and>
   (snd (collect_line py_int st line) = Dropped) =
      (py_int line \<noteq> None \<and> full (data_queue st)) \<and>
   (py_int line = None \<longrightarrow> collect_line py_int st line = (st, Malformed))"
  using pipeline_run_counters [of py_int zi st evs] collect_line_outcome [of py_int st line]
  by (simp add: collect_line_malformed)

theorem ingestion_counters_witness:
  "two_lines ''x1'' = None \<and>
   samples_collected (fst (pipeline_run two_lines identity_zi
       (small_processor\<lparr>data_queue := \<lparr>maxsize = 1, contents = []\<rparr>\<rparr>)
       [Serial ''7'', Serial ''x1'', Serial ''512''])) = 2 \<and>
   samples_dropped (fst (pipeline_run two_lines identity_zi
       (small_processor\<lparr>data_queue := \<lparr>maxsize = 1, contents = []\<rparr>\<rparr>)
       [Serial ''7'', Serial ''x1'', Serial ''512''])) = 1 \<and>
   collect_line two_lines (small_processor\<lparr>data_queue := \<lparr>maxsize = 1, contents = []\<rparr>\<rparr>) ''x1''
     = (small_processor\<lparr>data_queue := \<lparr>maxsize = 1, contents = []\<rparr>\<rparr>, Malformed)"
  using ingestion_counters [of two_lines identity_zi
      "small_processor\<lparr>data_queue := \<lparr>maxsize = 1, contents = []\<rparr>\<rparr>"
      "[Serial ''7'', Serial ''x1'', Serial ''512'']" "''x1''"]
  by (simp add: two_lines_def parsed_lines_simps failed_enqueues_simps collect_line_def
      put_nowait_def full_def small_processor_def)

section \<open>Properties of the controller\<close>



text \<open>
  C8. \<open>get_latest_result\<close> returns \<open>None\<close> exactly when the result channel is empty,
  and then leaves it so; otherwise it returns the oldest result and removes it from the
  channel.
\<close>

theorem get_latest_result_pops:
  "(fst (get_latest_result st) = None) = (contents (result_queue st) = []) \<and>
   get_latest_result (st\<lparr>result_queue := q\<lparr>contents := []\<rparr>\<rparr>)
     = (None, st\<lparr>result_queue := q\<lparr>contents := []\<rparr>\<rparr>) \<and>
   get_latest_result (st\<lparr>result_queue := q\<lparr>contents := r # rs\<rparr>\<rparr>)
     = (Some r, st\<lparr>result_queue := q\<lparr>contents := rs\<rparr>\<rparr>)"
  by (simp add: get_latest_result_def get_nowait_def split: list.splits)

lemma running_update_same: "\<not> running st \<Longrightarrow> st\<lparr>running := False\<rparr> = st"
  by (cases st) simp

text \<open>
  C9. On a freshly constructed processor \<open>stop\<close> joins no thread, prints its line and
  leaves the state as it was. \<open>start\<close> starts the two threads, one for each stage; a
  second \<open>start\<close> right after it starts none: it prints the warning and leaves the
  state, and so the two thread handles, as they are.
\<close>

theorem lifecycle:
  "init butter_fn g = Inr st \<Longrightarrow>
     stop st = (st, [Print ''Real-time processor stopped!'']) \<and>
     start st =
       (st\<lparr> running := True,
            collection_thread := Some \<lparr> target = DataCollectionLoop, daemon = True \<rparr>,
            processing_thread := Some \<lparr> target = ProcessingLoop, daemon = True \<rparr> \<rparr>,
        [ThreadStart DataCollectionLoop, ThreadStart ProcessingLoop,
         Print ''Real-time processor started!'']) \<and>
     start (fst (start st)) = (fst (start st), [Print ''Processor is already running!''])"
proof -
  assume "init butter_fn g = Inr st"
  then have f: "\<not> running st" "collection_thread st = None" "processing_thread st = None"
    using init_fresh by blast+
  show ?thesis
    using f by (simp add: start_def stop_def join_of_def running_update_same)
qed

theorem lifecycle_witness:
  "init identity_butter small_args = Inr small_processor \<and>
   stop small_processor = (small_processor, [Print ''Real-time processor stopped!'']) \<and>
   start small_processor =
     (small_processor\<lparr> running := True,
          collection_thread := Some \<lparr> target = DataCollectionLoop, daemon = True \<rparr>,
          processing_thread := Some \<lparr> target = ProcessingLoop, daemon = True \<rparr> \<rparr>,
      [ThreadStart DataCollectionLoop, ThreadStart ProcessingLoop,
       Print ''Real-time processor started!'']) \<and>
   start (fst (start small_processor)) =
     (fst (start small_processor), [Print ''Processor is already running!''])"
  using lifecycle [OF init_small] init_small by blast

section \<open>The filter state across windows\<close>







end
